theory Spec2Isabelle
  imports Complex_Main "HOL-Library.AList"
begin

section \<open>Python values used by \<^verbatim>\<open>pdftext/extraction.py\<close>\<close>

text \<open>
  Exceptions are values. \<open>TypeError\<close> carries its message; \<open>KeyError\<close> carries the
  missing dictionary key.
\<close>

datatype py_error =
    TypeError string
  | KeyError string
  | AttributeError string
  | ZeroDivisionError

subsection \<open>Slices and ranges\<close>

text \<open>
  \<^verbatim>\<open>range(n)\<close> for an integer \<open>n\<close>: the integers \<open>0, ..., n - 1\<close>, empty when
  \<open>n \<le> 0\<close>.
\<close>

definition py_range :: "int \<Rightarrow> int list" where
  "py_range n = map int [0..<nat n]"

text \<open>
  A slice bound of \<^verbatim>\<open>xs[a:b]\<close>: a negative bound counts from the end, and every
  bound is clamped into \<open>0 .. len(xs)\<close>.
\<close>

definition slice_index :: "nat \<Rightarrow> int \<Rightarrow> nat" where
  "slice_index n i = (if i < 0 then nat (max 0 (int n + i)) else min n (nat i))"

definition py_slice :: "'a list \<Rightarrow> int \<Rightarrow> int \<Rightarrow> 'a list" where
  "py_slice xs a b =
     (let n = length xs; lo = slice_index n a; hi = slice_index n b
      in drop lo (take hi xs))"

section \<open>The partitioning step of \<^verbatim>\<open>_get_pages\<close>\<close>

text \<open>
  Line 43: \<^verbatim>\<open>workers = min(workers, len(page_range) // settings.WORKER_PAGE_THRESHOLD)\<close>,
  executed only when \<^verbatim>\<open>workers is not None\<close>.  The threshold is a configuration
  constant of \<^verbatim>\<open>pdftext.settings\<close>; it is a parameter here.  Python's \<^verbatim>\<open>//\<close> is floor
  division, which is \<open>div\<close> on \<open>int\<close>, and it raises on a zero divisor.
\<close>

definition effective_workers :: "int \<Rightarrow> 'a list \<Rightarrow> int option \<Rightarrow> py_error + int option" where
  "effective_workers threshold page_range workers =
     (case workers of
        None \<Rightarrow> Inr None
      | Some w \<Rightarrow>
          if threshold = 0 then Inl ZeroDivisionError
          else Inr (Some (min w (int (length page_range) div threshold))))"

text \<open>
  Line 52: \<^verbatim>\<open>pages_per_worker = math.ceil(len(page_range) / workers)\<close>.  The quotient is
  taken in the reals: the rounding of Python's float division is not modelled (it
  cannot change the ceiling for lists of fewer than \<open>2^53\<close> pages).  The line is
  reached only with \<open>workers > 1\<close>.
\<close>

definition pages_per_worker :: "'a list \<Rightarrow> int \<Rightarrow> int" where
  "pages_per_worker page_range workers =
     \<lceil>real (length page_range) / real_of_int workers\<rceil>"

text \<open>
  Line 53:
  \<^verbatim>\<open>[page_range[i * pages_per_worker:(i + 1) * pages_per_worker] for i in range(workers)]\<close>.
\<close>

definition page_range_chunks :: "'a list \<Rightarrow> int \<Rightarrow> 'a list list" where
  "page_range_chunks page_range workers =
     (let ppw = pages_per_worker page_range workers
      in map (\<lambda>i. py_slice page_range (i * ppw) ((i + 1) * ppw)) (py_range workers))"

section \<open>Strings\<close>

text \<open>
  A Python \<^verbatim>\<open>str\<close> that is text content is a list of Unicode code points.
  \<^verbatim>\<open>str.strip()\<close> with no argument removes the characters for which
  \<^verbatim>\<open>str.isspace\<close> holds from both ends; \<^verbatim>\<open>sep.join(xs)\<close> puts \<open>sep\<close>
  between consecutive elements.
\<close>

type_synonym pystr = "nat list"

definition py_isspace :: "nat \<Rightarrow> bool" where
  "py_isspace c =
     ((9 \<le> c \<and> c \<le> 13) \<or> (28 \<le> c \<and> c \<le> 32) \<or> c = 133 \<or> c = 160 \<or> c = 5760 \<or>
      (8192 \<le> c \<and> c \<le> 8202) \<or> c = 8232 \<or> c = 8233 \<or> c = 8239 \<or> c = 8287 \<or>
      c = 12288)"

definition py_strip :: "pystr \<Rightarrow> pystr" where
  "py_strip s = rev (dropWhile py_isspace (rev (dropWhile py_isspace s)))"

fun py_join :: "pystr \<Rightarrow> pystr list \<Rightarrow> pystr" where
  "py_join sep [] = []"
| "py_join sep [x] = x"
| "py_join sep (x # y # ys) = x @ sep @ py_join sep (y # ys)"

section \<open>Dictionaries and the store\<close>

text \<open>
  The pages returned by \<^verbatim>\<open>inference\<close> are nested Python dictionaries, and
  \<^verbatim>\<open>dictionary_output\<close> mutates them in place.  A dictionary is an object in a
  store, reached through a reference; its content is an association list from keys to
  values in insertion order.  Numbers, strings and lists are never mutated by this
  module (a bounding box is replaced by a new list, never updated), so they are plain
  values.  Coordinates are reals: the rounding of floating-point products is not
  modelled.
\<close>

type_synonym addr = nat

datatype pyval = Num real | Str pystr | Lst "pyval list" | Ref addr

type_synonym dict = "(string \<times> pyval) list"

type_synonym heap = "addr \<Rightarrow> dict"

text \<open>\<^verbatim>\<open>d[k]\<close>, \<^verbatim>\<open>d[k] = v\<close> and \<^verbatim>\<open>del d[k]\<close> on a dictionary.\<close>

definition getitem :: "dict \<Rightarrow> string \<Rightarrow> py_error + pyval" where
  "getitem d k = (case map_of d k of None \<Rightarrow> Inl (KeyError k) | Some v \<Rightarrow> Inr v)"

definition setitem :: "dict \<Rightarrow> string \<Rightarrow> pyval \<Rightarrow> dict" where
  "setitem d k v = AList.update k v d"

definition delitem :: "dict \<Rightarrow> string \<Rightarrow> py_error + dict" where
  "delitem d k = (if k \<in> fst ` set d then Inr (AList.delete k d) else Inl (KeyError k))"

text \<open>
  \<^verbatim>\<open>for k in list(d.keys()): if k not in ks: del d[k]\<close> (lines 93-95 and 98-100).
\<close>

definition keep_keys :: "string list \<Rightarrow> dict \<Rightarrow> dict" where
  "keep_keys ks d = filter (\<lambda>(k, v). k \<in> set ks) d"

text \<open>
  The elements a \<^verbatim>\<open>for\<close> loop visits: the elements of a list, the characters of a
  string, the keys of a dictionary; a number is not iterable.
\<close>

definition py_iter :: "heap \<Rightarrow> pyval \<Rightarrow> py_error + pyval list" where
  "py_iter h v =
     (case v of
        Lst vs \<Rightarrow> Inr vs
      | Str s \<Rightarrow> Inr (map (\<lambda>c. Str [c]) s)
      | Ref a \<Rightarrow> Inr (map (\<lambda>(k, _). Str (map of_char k)) (h a))
      | Num x \<Rightarrow> Inl (TypeError ''object is not iterable''))"

text \<open>
  A statement either completes or raises, and in both cases leaves a store behind.
  \<open>and_then\<close> runs the next statement when the first one completed; \<open>for_each\<close> is a
  \<^verbatim>\<open>for\<close> loop over the elements of a list value.
\<close>

type_synonym outcome = "py_error option \<times> heap"

definition and_then :: "outcome \<Rightarrow> (heap \<Rightarrow> outcome) \<Rightarrow> outcome" where
  "and_then r k = (case r of (None, h) \<Rightarrow> k h | (Some e, h) \<Rightarrow> (Some e, h))"

fun for_each :: "('a \<Rightarrow> heap \<Rightarrow> outcome) \<Rightarrow> 'a list \<Rightarrow> heap \<Rightarrow> outcome" where
  "for_each body [] h = (None, h)"
| "for_each body (x # xs) h = and_then (body x h) (for_each body xs)"

text \<open>
  Modelled from the spec: \<^verbatim>\<open>unnormalize_bbox\<close> of \<^verbatim>\<open>pdftext.pdf.utils\<close> is not among
  the sources.  Section 4.1: the box is four values, the x-coordinates are multiplied
  by the page width and the y-coordinates by the page height, with no clamping.  On
  anything that is not four numbers and two numeric dimensions the model raises.
\<close>

definition unnormalize_bbox :: "pyval \<Rightarrow> pyval \<Rightarrow> pyval \<Rightarrow> py_error + pyval" where
  "unnormalize_bbox bbox page_width page_height =
     (case (bbox, page_width, page_height) of
        (Lst [Num x0, Num y0, Num x1, Num y1], Num w, Num h) \<Rightarrow>
          Inr (Lst [Num (x0 * w), Num (y0 * h), Num (x1 * w), Num (y1 * h)])
      | _ \<Rightarrow> Inl (TypeError ''unnormalize_bbox: not a box and two numbers''))"

section \<open>Collaborators and the calls made to them\<close>

text \<open>
  The functions imported by \<^verbatim>\<open>extraction.py\<close> from the rendering library, the
  model and the other modules of the package are parameters, collected in a record:
  \<^item> \<open>WORKER_PAGE_THRESHOLD\<close> is \<^verbatim>\<open>settings.WORKER_PAGE_THRESHOLD\<close>;
  \<^item> \<open>open_document\<close> is \<^verbatim>\<open>pdfium.PdfDocument(path)\<close>, which may raise;
  \<^item> \<open>init_forms\<close> is \<^verbatim>\<open>pdf.init_forms()\<close>, as the handle after the call;
  \<^item> \<open>doc_len\<close> is \<^verbatim>\<open>len(pdf_doc)\<close>;
  \<^item> \<open>get_pdfium_chars\<close> takes the document, the pages and the third positional
    argument when the call passes one (\<open>None\<close> when the call omits it);
  \<^item> \<open>inference\<close>, \<open>merge_text\<close>, \<open>postprocess_text\<close> and \<open>handle_hyphens\<close> are
    deterministic functions of their arguments;
  \<^item> \<open>sort_blocks\<close> reads the blocks in the store and returns the list to assign.
\<close>

record ('doc, 'model, 'chars, 'page) env =
  WORKER_PAGE_THRESHOLD :: int
  open_document :: "string \<Rightarrow> py_error + 'doc"
  init_forms :: "'doc \<Rightarrow> 'doc"
  doc_len :: "'doc \<Rightarrow> nat"
  get_model :: "'model"
  get_pdfium_chars :: "'doc \<Rightarrow> int list \<Rightarrow> bool option \<Rightarrow> 'chars"
  inference :: "'chars \<Rightarrow> 'model \<Rightarrow> 'page list"
  merge_text :: "'page \<Rightarrow> bool \<Rightarrow> bool \<Rightarrow> pystr"
  postprocess_text :: "pyval \<Rightarrow> pyval"
  handle_hyphens :: "pyval \<Rightarrow> bool \<Rightarrow> pyval"
  sort_blocks :: "heap \<Rightarrow> pyval \<Rightarrow> pyval"

text \<open>
  Every function of the module returns, next to its result, the calls it made to the
  document, the glyph extractor and the model, in program order.  What a worker
  process does is the list inside its \<open>Worker\<close> event, one event per submitted chunk
  in submission order.
\<close>

datatype 'doc event =
    Open_document string
  | Init_forms 'doc
  | Get_model
  | Get_pdfium_chars 'doc "int list" "bool option"
  | Inference
  | Worker "int list" "'doc event list"

text \<open>The number of \<^verbatim>\<open>init_forms\<close> calls in an event, at any depth.\<close>

primrec init_forms_calls :: "'doc event \<Rightarrow> nat" where
  "init_forms_calls (Open_document path) = 0"
| "init_forms_calls (Init_forms d) = 1"
| "init_forms_calls Get_model = 0"
| "init_forms_calls (Get_pdfium_chars d pages flatten) = 0"
| "init_forms_calls Inference = 0"
| "init_forms_calls (Worker chunk evs) = sum_list (map init_forms_calls evs)"

text \<open>The argument of the two entry points: a \<^verbatim>\<open>str\<close>, a \<^verbatim>\<open>PdfDocument\<close>, or neither.\<close>

datatype 'doc pdf_arg = PyStr string | PdfDocument 'doc | OtherObject

section \<open>\<^verbatim>\<open>_process_pdf\<close>\<close>

text \<open>Lines 16-20: a path is opened, a document handle is kept, anything else raises.\<close>

definition check_pdf ::
  "('doc, 'model, 'chars, 'page) env \<Rightarrow> 'doc pdf_arg \<Rightarrow> (py_error + 'doc) \<times> 'doc event list"
where
  "check_pdf env pdf =
     (case pdf of
        PyStr path \<Rightarrow> (open_document env path, [Open_document path])
      | PdfDocument d \<Rightarrow> (Inr d, [])
      | OtherObject \<Rightarrow>
          (Inl (TypeError ''pdf must be a file path string or a PdfDocument object''), []))"

definition process_pdf ::
  "('doc, 'model, 'chars, 'page) env \<Rightarrow> 'doc pdf_arg \<Rightarrow> bool \<Rightarrow> (py_error + 'doc) \<times> 'doc event list"
where
  "process_pdf env pdf flatten_pdf =
     (case check_pdf env pdf of
        (Inl e, evs) \<Rightarrow> (Inl e, evs)
      | (Inr d, evs) \<Rightarrow>
          if flatten_pdf then (Inr (init_forms env d), evs @ [Init_forms d])
          else (Inr d, evs))"

section \<open>\<^verbatim>\<open>_get_page_range\<close> and \<^verbatim>\<open>_get_pages\<close>\<close>

definition get_page_range ::
  "('doc, 'model, 'chars, 'page) env \<Rightarrow> 'doc \<Rightarrow> 'model \<Rightarrow> int list \<Rightarrow> 'page list \<times> 'doc event list"
where
  "get_page_range env pdf_doc model page_range =
     (inference env (get_pdfium_chars env pdf_doc page_range None) model,
      [Get_pdfium_chars pdf_doc page_range None, Inference])"

text \<open>Lines 46-47, the sequential path, in the caller's own process.\<close>

definition sequential_path ::
  "('doc, 'model, 'chars, 'page) env \<Rightarrow> 'doc \<Rightarrow> 'model \<Rightarrow> int list \<Rightarrow> bool \<Rightarrow>
     'page list \<times> 'doc event list"
where
  "sequential_path env pdf_doc model page_range flatten_pdf =
     (inference env (get_pdfium_chars env pdf_doc page_range (Some flatten_pdf)) model,
      [Get_pdfium_chars pdf_doc page_range (Some flatten_pdf), Inference])"

text \<open>
  Lines 49-60, the parallel path.  \<^verbatim>\<open>executor.map\<close> yields the results in the order
  of the chunks it was given, whichever worker finishes first.
\<close>

definition parallel_path ::
  "('doc, 'model, 'chars, 'page) env \<Rightarrow> 'doc \<Rightarrow> 'model \<Rightarrow> int list \<Rightarrow> int \<Rightarrow>
     'page list \<times> 'doc event list"
where
  "parallel_path env pdf_doc model page_range workers =
     (let chunks = page_range_chunks page_range workers;
          pages = map (\<lambda>chunk. get_page_range env pdf_doc model chunk) chunks
      in (concat (map fst pages),
          map (\<lambda>chunk. Worker chunk (snd (get_page_range env pdf_doc model chunk))) chunks))"

text \<open>Lines 36-37 and 39-40: the defaults of \<^verbatim>\<open>model\<close> and \<^verbatim>\<open>page_range\<close>.\<close>

definition default_model ::
  "('doc, 'model, 'chars, 'page) env \<Rightarrow> 'model option \<Rightarrow> 'model \<times> 'doc event list"
where
  "default_model env model =
     (case model of None \<Rightarrow> (get_model env, [Get_model]) | Some m \<Rightarrow> (m, []))"

definition default_page_range ::
  "('doc, 'model, 'chars, 'page) env \<Rightarrow> 'doc \<Rightarrow> int list option \<Rightarrow> int list"
where
  "default_page_range env pdf_doc page_range =
     (case page_range of None \<Rightarrow> py_range (int (doc_len env pdf_doc)) | Some r \<Rightarrow> r)"

definition get_pages ::
  "('doc, 'model, 'chars, 'page) env \<Rightarrow> 'doc \<Rightarrow> 'model option \<Rightarrow> int list option \<Rightarrow> bool \<Rightarrow>
     int option \<Rightarrow> (py_error + 'page list) \<times> 'doc event list"
where
  "get_pages env pdf_doc model page_range flatten_pdf workers =
     (case default_model env model of (model, evs) \<Rightarrow>
        let page_range = default_page_range env pdf_doc page_range in
        case effective_workers (WORKER_PAGE_THRESHOLD env) page_range workers of
          Inl e \<Rightarrow> (Inl e, evs)
        | Inr workers \<Rightarrow>
            (case (case workers of
                     None \<Rightarrow> sequential_path env pdf_doc model page_range flatten_pdf
                   | Some w \<Rightarrow>
                       if w \<le> 1 then sequential_path env pdf_doc model page_range flatten_pdf
                       else parallel_path env pdf_doc model page_range w)
             of (pages, evs') \<Rightarrow> (Inr pages, evs @ evs')))"

section \<open>The flat-text entry points\<close>

definition paginated_plain_text_output ::
  "('doc, 'model, 'chars, 'page) env \<Rightarrow> 'doc \<Rightarrow> bool \<Rightarrow> 'model option \<Rightarrow> bool \<Rightarrow>
     int list option \<Rightarrow> bool \<Rightarrow> int option \<Rightarrow> (py_error + pystr list) \<times> 'doc event list"
where
  "paginated_plain_text_output env pdf_doc sort' model hyphens page_range flatten_pdf workers =
     (case get_pages env pdf_doc model page_range flatten_pdf workers of
        (Inl e, evs) \<Rightarrow> (Inl e, evs)
      | (Inr pages, evs) \<Rightarrow>
          (Inr (map (\<lambda>page. py_strip (merge_text env page sort' hyphens)) pages), evs))"

definition plain_text_output ::
  "('doc, 'model, 'chars, 'page) env \<Rightarrow> 'doc pdf_arg \<Rightarrow> bool \<Rightarrow> 'model option \<Rightarrow> bool \<Rightarrow>
     int list option \<Rightarrow> bool \<Rightarrow> int option \<Rightarrow> (py_error + pystr) \<times> 'doc event list"
where
  "plain_text_output env pdf sort' model hyphens page_range flatten_pdf workers =
     (case process_pdf env pdf flatten_pdf of
        (Inl e, evs) \<Rightarrow> (Inl e, evs)
      | (Inr pdf_doc, evs) \<Rightarrow>
          (case paginated_plain_text_output env pdf_doc sort' model hyphens page_range
                  flatten_pdf workers
           of (Inl e, evs') \<Rightarrow> (Inl e, evs @ evs')
            | (Inr text, evs') \<Rightarrow> (Inr (py_join [10] text), evs @ evs')))"

section \<open>\<^verbatim>\<open>_process_span\<close> and \<^verbatim>\<open>dictionary_output\<close>\<close>

text \<open>
  \<^verbatim>\<open>obj["bbox"] = unnormalize_bbox(obj["bbox"], page_width, page_height)\<close>, the
  statement of lines 78, 84, 96 and 101: what it makes of the dictionary \<open>d\<close>, and
  the statement itself on the dictionary at address \<open>a\<close>.
\<close>

definition set_bbox_dict :: "dict \<Rightarrow> pyval \<Rightarrow> pyval \<Rightarrow> py_error + dict" where
  "set_bbox_dict d page_width page_height =
     (case getitem d ''bbox'' of
        Inl e \<Rightarrow> Inl e
      | Inr bbox \<Rightarrow>
          (case unnormalize_bbox bbox page_width page_height of
             Inl e \<Rightarrow> Inl e
           | Inr bbox' \<Rightarrow> Inr (setitem d ''bbox'' bbox')))"

definition set_bbox :: "addr \<Rightarrow> pyval \<Rightarrow> pyval \<Rightarrow> heap \<Rightarrow> outcome" where
  "set_bbox a page_width page_height h =
     (case set_bbox_dict (h a) page_width page_height of
        Inl e \<Rightarrow> (Some e, h)
      | Inr d \<Rightarrow> (None, h(a := d)))"

text \<open>The body of the loop of lines 83-84.\<close>

definition process_char :: "pyval \<Rightarrow> pyval \<Rightarrow> pyval \<Rightarrow> heap \<Rightarrow> outcome" where
  "process_char char page_width page_height h =
     (case char of
        Ref a \<Rightarrow> set_bbox a page_width page_height h
      | _ \<Rightarrow> (Some (TypeError ''object is not subscriptable''), h))"

definition process_span ::
  "('doc, 'model, 'chars, 'page) env \<Rightarrow> pyval \<Rightarrow> pyval \<Rightarrow> pyval \<Rightarrow> bool \<Rightarrow> heap \<Rightarrow> outcome"
where
  "process_span env span' page_width page_height keep_chars h =
     (case span' of
        Ref a \<Rightarrow>
          and_then (set_bbox a page_width page_height h) (\<lambda>h1.
            case getitem (h1 a) ''text'' of
              Inl e \<Rightarrow> (Some e, h1)
            | Inr text \<Rightarrow>
                let h2 = h1(a := setitem (h1 a) ''text''
                                   (handle_hyphens env (postprocess_text env text) True))
                in if \<not> keep_chars then
                     (case delitem (h2 a) ''chars'' of
                        Inl e \<Rightarrow> (Some e, h2)
                      | Inr d \<Rightarrow> (None, h2(a := d)))
                   else
                     (case getitem (h2 a) ''chars'' of
                        Inl e \<Rightarrow> (Some e, h2)
                      | Inr chars \<Rightarrow>
                          (case py_iter h2 chars of
                             Inl e \<Rightarrow> (Some e, h2)
                           | Inr cs \<Rightarrow>
                               for_each (\<lambda>char. process_char char page_width page_height)
                                 cs h2)))
      | _ \<Rightarrow> (Some (TypeError ''object is not subscriptable''), h))"

text \<open>The body of the loop of lines 97-103.\<close>

definition process_line ::
  "('doc, 'model, 'chars, 'page) env \<Rightarrow> pyval \<Rightarrow> pyval \<Rightarrow> pyval \<Rightarrow> bool \<Rightarrow> heap \<Rightarrow> outcome"
where
  "process_line env line page_width page_height keep_chars h =
     (case line of
        Ref a \<Rightarrow>
          and_then
            (set_bbox a page_width page_height
               (h(a := keep_keys [''spans'', ''bbox''] (h a))))
            (\<lambda>h1.
               case getitem (h1 a) ''spans'' of
                 Inl e \<Rightarrow> (Some e, h1)
               | Inr spans \<Rightarrow>
                   (case py_iter h1 spans of
                      Inl e \<Rightarrow> (Some e, h1)
                    | Inr ss \<Rightarrow>
                        for_each
                          (\<lambda>span'. process_span env span' page_width page_height keep_chars)
                          ss h1))
      | _ \<Rightarrow> (Some (AttributeError ''keys''), h))"

text \<open>The body of the loop of lines 92-103.\<close>

definition process_block ::
  "('doc, 'model, 'chars, 'page) env \<Rightarrow> pyval \<Rightarrow> pyval \<Rightarrow> pyval \<Rightarrow> bool \<Rightarrow> heap \<Rightarrow> outcome"
where
  "process_block env block page_width page_height keep_chars h =
     (case block of
        Ref a \<Rightarrow>
          and_then
            (set_bbox a page_width page_height
               (h(a := keep_keys [''lines'', ''bbox''] (h a))))
            (\<lambda>h1.
               case getitem (h1 a) ''lines'' of
                 Inl e \<Rightarrow> (Some e, h1)
               | Inr lines \<Rightarrow>
                   (case py_iter h1 lines of
                      Inl e \<Rightarrow> (Some e, h1)
                    | Inr ls \<Rightarrow>
                        for_each
                          (\<lambda>line. process_line env line page_width page_height keep_chars)
                          ls h1))
      | _ \<Rightarrow> (Some (AttributeError ''keys''), h))"

text \<open>The body of the loop of lines 90-106.\<close>

definition process_page ::
  "('doc, 'model, 'chars, 'page) env \<Rightarrow> pyval \<Rightarrow> bool \<Rightarrow> bool \<Rightarrow> heap \<Rightarrow> outcome"
where
  "process_page env page keep_chars sort' h =
     (case page of
        Ref a \<Rightarrow>
          (case getitem (h a) ''width'' of
             Inl e \<Rightarrow> (Some e, h)
           | Inr page_width \<Rightarrow>
               (case getitem (h a) ''height'' of
                  Inl e \<Rightarrow> (Some e, h)
                | Inr page_height \<Rightarrow>
                    (case getitem (h a) ''blocks'' of
                       Inl e \<Rightarrow> (Some e, h)
                     | Inr blocks \<Rightarrow>
                         (case py_iter h blocks of
                            Inl e \<Rightarrow> (Some e, h)
                          | Inr bs \<Rightarrow>
                              and_then
                                (for_each
                                   (\<lambda>block. process_block env block page_width page_height
                                               keep_chars)
                                   bs h)
                                (\<lambda>h1.
                                   if sort' then
                                     (case getitem (h1 a) ''blocks'' of
                                        Inl e \<Rightarrow> (Some e, h1)
                                      | Inr blocks' \<Rightarrow>
                                          (None, h1(a := setitem (h1 a) ''blocks''
                                                            (sort_blocks env h1 blocks'))))
                                   else (None, h1))))))
      | _ \<Rightarrow> (Some (TypeError ''object is not subscriptable''), h))"

text \<open>
  Lines 90-106, the assembly loop, on the list of pages that \<^verbatim>\<open>_get_pages\<close>
  returned and the store that holds them.
\<close>

definition assemble ::
  "('doc, 'model, 'chars, 'page) env \<Rightarrow> pyval list \<Rightarrow> bool \<Rightarrow> bool \<Rightarrow> heap \<Rightarrow> outcome"
where
  "assemble env pages keep_chars sort' h =
     for_each (\<lambda>page. process_page env page keep_chars sort') pages h"

text \<open>
  \<^verbatim>\<open>dictionary_output\<close>.  The pages are references into the store \<open>h\<close>, the store as
  it is when \<^verbatim>\<open>_get_pages\<close> returns; the result is the list \<^verbatim>\<open>pages\<close> itself.
\<close>

definition dictionary_output ::
  "('doc, 'model, 'chars, pyval) env \<Rightarrow> 'doc pdf_arg \<Rightarrow> bool \<Rightarrow> 'model option \<Rightarrow>
     int list option \<Rightarrow> bool \<Rightarrow> bool \<Rightarrow> int option \<Rightarrow> heap \<Rightarrow>
     (py_error + pyval list) \<times> heap \<times> 'doc event list"
where
  "dictionary_output env pdf sort' model page_range flatten_pdf keep_chars workers h =
     (case process_pdf env pdf flatten_pdf of
        (Inl e, evs) \<Rightarrow> (Inl e, h, evs)
      | (Inr pdf_doc, evs) \<Rightarrow>
          (case get_pages env pdf_doc model page_range flatten_pdf workers of
             (Inl e, evs') \<Rightarrow> (Inl e, h, evs @ evs')
           | (Inr pages, evs') \<Rightarrow>
               (case assemble env pages keep_chars sort' h of
                  (Some e, h') \<Rightarrow> (Inl e, h', evs @ evs')
                | (None, h') \<Rightarrow> (Inr pages, h', evs @ evs'))))"

section \<open>The tree of a page in the store\<close>

text \<open>
  The elements of the list stored under a key; no elements when the key is absent or
  its value is not a list.
\<close>

definition list_items :: "dict \<Rightarrow> string \<Rightarrow> pyval list" where
  "list_items d k = (case map_of d k of Some (Lst vs) \<Rightarrow> vs | _ \<Rightarrow> [])"

text \<open>
  The addresses of the dictionaries that the assembly of a character, a span, a line,
  a block and a page visits.  The characters of a span are visited only when
  \<^verbatim>\<open>keep_chars\<close> is set.  The nodes are distinct objects, and none is shared, when
  the list of addresses has no repetition.
\<close>

definition char_addrs :: "heap \<Rightarrow> pyval \<Rightarrow> addr list" where
  "char_addrs h v = (case v of Ref c \<Rightarrow> [c] | _ \<Rightarrow> [])"

definition span_addrs :: "bool \<Rightarrow> heap \<Rightarrow> pyval \<Rightarrow> addr list" where
  "span_addrs keep_chars h v =
     (case v of
        Ref s \<Rightarrow>
          s # (if keep_chars then concat (map (char_addrs h) (list_items (h s) ''chars''))
               else [])
      | _ \<Rightarrow> [])"

definition line_addrs :: "bool \<Rightarrow> heap \<Rightarrow> pyval \<Rightarrow> addr list" where
  "line_addrs keep_chars h v =
     (case v of
        Ref l \<Rightarrow> l # concat (map (span_addrs keep_chars h) (list_items (h l) ''spans''))
      | _ \<Rightarrow> [])"

definition block_addrs :: "bool \<Rightarrow> heap \<Rightarrow> pyval \<Rightarrow> addr list" where
  "block_addrs keep_chars h v =
     (case v of
        Ref b \<Rightarrow> b # concat (map (line_addrs keep_chars h) (list_items (h b) ''lines''))
      | _ \<Rightarrow> [])"

definition page_addrs :: "bool \<Rightarrow> heap \<Rightarrow> pyval \<Rightarrow> addr list" where
  "page_addrs keep_chars h v =
     (case v of
        Ref p \<Rightarrow> p # concat (map (block_addrs keep_chars h) (list_items (h p) ''blocks''))
      | _ \<Rightarrow> [])"

text \<open>
  What the statements of one loop body make of the dictionary of a span, a line and a
  block when none of them raises.
\<close>

definition span_node ::
  "('doc, 'model, 'chars, 'page) env \<Rightarrow> pyval \<Rightarrow> pyval \<Rightarrow> bool \<Rightarrow> dict \<Rightarrow> py_error + dict"
where
  "span_node env page_width page_height keep_chars d =
     (case set_bbox_dict d page_width page_height of
        Inl e \<Rightarrow> Inl e
      | Inr d1 \<Rightarrow>
          (case getitem d1 ''text'' of
             Inl e \<Rightarrow> Inl e
           | Inr text \<Rightarrow>
               let d2 = setitem d1 ''text'' (handle_hyphens env (postprocess_text env text) True)
               in if \<not> keep_chars then delitem d2 ''chars''
                  else (case getitem d2 ''chars'' of Inl e \<Rightarrow> Inl e | Inr chars \<Rightarrow> Inr d2)))"

definition inner_node :: "string \<Rightarrow> pyval \<Rightarrow> pyval \<Rightarrow> dict \<Rightarrow> py_error + dict" where
  "inner_node children page_width page_height d =
     (case set_bbox_dict (keep_keys [children, ''bbox''] d) page_width page_height of
        Inl e \<Rightarrow> Inl e
      | Inr d1 \<Rightarrow> (case getitem d1 children of Inl e \<Rightarrow> Inl e | Inr vs \<Rightarrow> Inr d1))"

text \<open>
  The relation between the store before and the store after the assembly of a node:
  the node is a dictionary, its own dictionary is the one above, and so it is for
  every node below it.
\<close>

definition char_done :: "pyval \<Rightarrow> pyval \<Rightarrow> pyval \<Rightarrow> heap \<Rightarrow> heap \<Rightarrow> bool" where
  "char_done page_width page_height v h h' =
     (case v of Ref c \<Rightarrow> set_bbox_dict (h c) page_width page_height = Inr (h' c) | _ \<Rightarrow> False)"

definition span_done ::
  "('doc, 'model, 'chars, 'page) env \<Rightarrow> pyval \<Rightarrow> pyval \<Rightarrow> bool \<Rightarrow> pyval \<Rightarrow> heap \<Rightarrow> heap \<Rightarrow> bool"
where
  "span_done env page_width page_height keep_chars v h h' =
     (case v of
        Ref s \<Rightarrow>
          span_node env page_width page_height keep_chars (h s) = Inr (h' s) \<and>
          (keep_chars \<longrightarrow>
             list_all (\<lambda>u. char_done page_width page_height u h h')
               (list_items (h s) ''chars''))
      | _ \<Rightarrow> False)"

definition line_done ::
  "('doc, 'model, 'chars, 'page) env \<Rightarrow> pyval \<Rightarrow> pyval \<Rightarrow> bool \<Rightarrow> pyval \<Rightarrow> heap \<Rightarrow> heap \<Rightarrow> bool"
where
  "line_done env page_width page_height keep_chars v h h' =
     (case v of
        Ref l \<Rightarrow>
          inner_node ''spans'' page_width page_height (h l) = Inr (h' l) \<and>
          list_all (\<lambda>u. span_done env page_width page_height keep_chars u h h')
            (list_items (h l) ''spans'')
      | _ \<Rightarrow> False)"

definition block_done ::
  "('doc, 'model, 'chars, 'page) env \<Rightarrow> pyval \<Rightarrow> pyval \<Rightarrow> bool \<Rightarrow> pyval \<Rightarrow> heap \<Rightarrow> heap \<Rightarrow> bool"
where
  "block_done env page_width page_height keep_chars v h h' =
     (case v of
        Ref b \<Rightarrow>
          inner_node ''lines'' page_width page_height (h b) = Inr (h' b) \<and>
          list_all (\<lambda>u. line_done env page_width page_height keep_chars u h h')
            (list_items (h b) ''lines'')
      | _ \<Rightarrow> False)"

definition page_done ::
  "('doc, 'model, 'chars, 'page) env \<Rightarrow> bool \<Rightarrow> bool \<Rightarrow> pyval \<Rightarrow> heap \<Rightarrow> heap \<Rightarrow> bool"
where
  "page_done env keep_chars sort' v h h' =
     (case v of
        Ref p \<Rightarrow>
          (case (getitem (h p) ''width'', getitem (h p) ''height'') of
             (Inr page_width, Inr page_height) \<Rightarrow>
               list_all (\<lambda>u. block_done env page_width page_height keep_chars u h h')
                 (list_items (h p) ''blocks'') \<and>
               (if sort'
                then map_of (h p) ''blocks'' \<noteq> None \<and>
                     AList.delete ''blocks'' (h' p) = AList.delete ''blocks'' (h p)
                else h' p = h p)
           | _ \<Rightarrow> False)
      | _ \<Rightarrow> False)"

text \<open>
  The box of \<open>d'\<close> is the box of \<open>d\<close> passed once through \<^verbatim>\<open>unnormalize_bbox\<close>
  with the given page dimensions.
\<close>

definition bbox_scaled :: "dict \<Rightarrow> dict \<Rightarrow> pyval \<Rightarrow> pyval \<Rightarrow> bool" where
  "bbox_scaled d d' page_width page_height =
     (case getitem d ''bbox'' of
        Inl e \<Rightarrow> False
      | Inr bbox \<Rightarrow>
          (case unnormalize_bbox bbox page_width page_height of
             Inl e \<Rightarrow> False
           | Inr bbox' \<Rightarrow> getitem d' ''bbox'' = Inr bbox'))"

section \<open>A concrete environment\<close>

text \<open>
  A small instance of the collaborators, on which the theorems below are exercised:
  a document is its page count, the glyphs of a page range are the page indices, and
  the model returns for page \<open>i\<close> the dictionary at address \<open>10 * i\<close>.  The threshold
  is the one of the specification's end-to-end example.
\<close>

definition example_env :: "(nat, unit, int list, pyval) env" where
  "example_env =
     \<lparr> WORKER_PAGE_THRESHOLD = 3,
       open_document = (\<lambda>path. Inr 10),
       init_forms = (\<lambda>d. d),
       doc_len = (\<lambda>d. d),
       get_model = (),
       get_pdfium_chars = (\<lambda>d pages flatten. pages),
       inference = (\<lambda>chars m. map (\<lambda>i. Ref (10 * nat i)) chars),
       merge_text = (\<lambda>page s h. case page of Ref a \<Rightarrow> [32, 112, 48 + a div 10, 10] | _ \<Rightarrow> []),
       postprocess_text = (\<lambda>text. text),
       handle_hyphens = (\<lambda>text keep_hyphens. text),
       sort_blocks = (\<lambda>h blocks. blocks) \<rparr>"

text \<open>
  A store with page 0 of that model: a page of 600 by 800 with one block, one line,
  one span and two characters, each with the box of the specification's example and
  with the extra fields that the model attaches.
\<close>

definition example_box :: pyval where
  "example_box = Lst [Num (1 / 10), Num (1 / 5), Num (1 / 2), Num (3 / 5)]"

definition example_heap :: heap where
  "example_heap =
     (\<lambda>a. []) (
       0 := [(''width'', Num 600), (''height'', Num 800), (''blocks'', Lst [Ref 1])],
       1 := [(''block_type'', Str [116]), (''bbox'', example_box), (''lines'', Lst [Ref 2])],
       2 := [(''spans'', Lst [Ref 3]), (''rotation'', Num 0), (''bbox'', example_box)],
       3 := [(''bbox'', example_box), (''text'', Str [72, 105]), (''font'', Str [70]),
             (''chars'', Lst [Ref 4, Ref 5])],
       4 := [(''bbox'', example_box), (''char'', Str [72])],
       5 := [(''char'', Str [105]), (''bbox'', example_box)])"

section \<open>Facts about slices and the chunk size\<close>

lemma pages_per_worker_div:
  "pages_per_worker xs w = - ((- int (length xs)) div w)"
  unfolding pages_per_worker_def
  using ceiling_divide_eq_div [of "int (length xs)" w] by simp

lemma pages_per_worker_nonneg: "0 < w \<Longrightarrow> 0 \<le> pages_per_worker xs w"
proof -
  assume "0 < w"
  then have "0 \<le> real (length xs) / real_of_int w" by simp
  then have "- 1 < real (length xs) / real_of_int w" by linarith
  then show ?thesis
    unfolding pages_per_worker_def by (simp only: zero_le_ceiling)
qed

lemma pages_per_worker_covers:
  assumes "0 < w"
  shows "int (length xs) \<le> w * pages_per_worker xs w"
proof -
  have "real (length xs) / real_of_int w \<le> real_of_int (pages_per_worker xs w)"
    unfolding pages_per_worker_def by (rule le_of_int_ceiling)
  then have "real (length xs) \<le> real_of_int (pages_per_worker xs w) * real_of_int w"
    using assms by (simp add: pos_divide_le_eq)
  then have "real_of_int (int (length xs)) \<le> real_of_int (w * pages_per_worker xs w)"
    by (simp add: mult.commute)
  then show ?thesis by (simp only: of_int_le_iff)
qed

lemma py_slice_nat:
  "py_slice xs (int a) (int b) = drop a (take b xs)"
  by (simp add: py_slice_def slice_index_def Let_def min_def drop_take)

lemma concat_slices:
  "concat (map (\<lambda>i. drop (i * p) (take ((i + 1) * p) xs)) [0..<k]) = take (k * p) xs"
proof (induction k)
  case 0
  show ?case by simp
next
  case (Suc k)
  have "take (k * p) xs @ drop (k * p) (take (Suc k * p) xs) = take (Suc k * p) xs"
  proof -
    have "take (k * p) (take (Suc k * p) xs) = take (k * p) xs"
      by (simp add: min_def)
    then show ?thesis
      using append_take_drop_id [of "k * p" "take (Suc k * p) xs"] by simp
  qed
  with Suc show ?case by simp
qed

lemma page_range_chunks_nat:
  assumes "0 < w"
  shows "page_range_chunks xs w =
         map (\<lambda>i. drop (i * nat (pages_per_worker xs w))
                     (take ((i + 1) * nat (pages_per_worker xs w)) xs)) [0..<nat w]"
proof -
  let ?p = "pages_per_worker xs w"
  have p: "0 \<le> ?p" using assms by (rule pages_per_worker_nonneg)
  have "py_slice xs (int i * ?p) ((int i + 1) * ?p) =
        drop (i * nat ?p) (take ((i + 1) * nat ?p) xs)" for i
  proof -
    have "int i * ?p = int (i * nat ?p)" "(int i + 1) * ?p = int ((i + 1) * nat ?p)"
      using p by (simp_all add: algebra_simps)
    then show ?thesis by (simp only: py_slice_nat)
  qed
  then show ?thesis
    by (simp add: page_range_chunks_def py_range_def Let_def comp_def)
qed

section \<open>Partition completeness\<close>

lemma concat_chunks:
  "0 < workers \<Longrightarrow> concat (page_range_chunks page_range workers) = page_range"
proof -
  assume w: "0 < workers"
  let ?p = "nat (pages_per_worker page_range workers)"
  have "int (length page_range) \<le> workers * pages_per_worker page_range workers"
    using w by (rule pages_per_worker_covers)
  also have "\<dots> = int (nat workers * ?p)"
    using w pages_per_worker_nonneg [OF w, of page_range] by simp
  finally have len: "length page_range \<le> nat workers * ?p" by (simp only: of_nat_le_iff)
  have "concat (page_range_chunks page_range workers) = take (nat workers * ?p) page_range"
    by (simp only: page_range_chunks_nat [OF w] concat_slices)
  with len show ?thesis by simp
qed

text \<open>
  Claim C1.  For every page range and every worker count with which the partitioning
  step runs (it runs with \<open>workers > 1\<close>; the statement holds for every positive
  count), the chunks of lines 52-53, concatenated in the order they are produced, are
  the page range itself: nothing is missing, duplicated or reordered.
\<close>

theorem chunks_concat_page_range:
  "0 < workers \<Longrightarrow> concat (page_range_chunks page_range workers) = page_range"
  by (rule concat_chunks)

theorem chunks_concat_page_range_witness:
  "(0::int) < 3 \<and> concat (page_range_chunks [0, 1, 2, 3, 4, 5, 6, 7, 8, 9 :: int] 3)
     = [0, 1, 2, 3, 4, 5, 6, 7, 8, 9]"
  using chunks_concat_page_range [of 3 "[0, 1, 2, 3, 4, 5, 6, 7, 8, 9 :: int]"] by simp

section \<open>Non-empty chunks\<close>

lemma chunk_nth:
  assumes "0 < w" "i < nat w"
  shows "page_range_chunks xs w ! i =
         drop (i * nat (pages_per_worker xs w)) (take ((i + 1) * nat (pages_per_worker xs w)) xs)"
  using assms by (simp add: page_range_chunks_nat)

lemma chunk_nonempty_iff:
  assumes "0 < w" "i < nat w"
  shows "page_range_chunks xs w ! i \<noteq> [] \<longleftrightarrow>
         i * nat (pages_per_worker xs w) < length xs \<and> 0 < pages_per_worker xs w"
  using assms by (auto simp add: chunk_nth)

lemma pages_per_worker_pos: "0 < w \<Longrightarrow> xs \<noteq> [] \<Longrightarrow> 0 < pages_per_worker xs w"
  unfolding pages_per_worker_def by (simp add: ceiling_less_iff)

lemma pages_per_worker_upper:
  assumes "0 < w"
  shows "w * pages_per_worker xs w < int (length xs) + w"
proof -
  have "real_of_int (pages_per_worker xs w) - 1 < real (length xs) / real_of_int w"
    unfolding pages_per_worker_def
    using ceiling_correct [of "real (length xs) / real_of_int w"] by simp
  then have "(real_of_int (pages_per_worker xs w) - 1) * real_of_int w < real (length xs)"
    using assms by (simp add: pos_less_divide_eq)
  then have "real_of_int (w * pages_per_worker xs w) < real_of_int (int (length xs) + w)"
    by (simp add: algebra_simps)
  then show ?thesis by (simp only: of_int_less_iff)
qed

lemma last_chunk_start:
  assumes w: "0 < w" and sq: "(w - 1) * (w - 1) < int (length xs)"
  shows "(w - 1) * pages_per_worker xs w < int (length xs)"
proof (rule ccontr)
  let ?p = "pages_per_worker xs w" and ?n = "int (length xs)"
  assume "\<not> (w - 1) * ?p < ?n"
  then have ge: "?n \<le> (w - 1) * ?p" by simp
  have "w * ?p < ?n + w" using w by (rule pages_per_worker_upper)
  then have "(w - 1) * ?p + ?p < ?n + w" by (simp add: algebra_simps)
  with ge have "?p < w" by linarith
  then have "?p \<le> w - 1" by simp
  then have "(w - 1) * ?p \<le> (w - 1) * (w - 1)" using w by (intro mult_left_mono) simp_all
  with ge sq show False by linarith
qed

lemma chunks_all_nonempty:
  assumes w: "0 < w" and sq: "(w - 1) * (w - 1) < int (length xs)"
  shows "[] \<notin> set (page_range_chunks xs w)"
proof
  let ?p = "pages_per_worker xs w"
  have ne: "xs \<noteq> []"
  proof
    assume "xs = []"
    with sq have "(w - 1) * (w - 1) < 0" by simp
    then show False by (simp add: not_less)
  qed
  have pos: "0 < ?p" using w ne by (rule pages_per_worker_pos)
  assume "[] \<in> set (page_range_chunks xs w)"
  then obtain i where i: "i < nat w" and c: "page_range_chunks xs w ! i = []"
    by (auto simp add: in_set_conv_nth page_range_chunks_nat [OF w])
  have "int i \<le> w - 1" using i by linarith
  then have "int i * ?p \<le> (w - 1) * ?p" using pos by (intro mult_right_mono) simp_all
  also have "\<dots> < int (length xs)" using w sq by (rule last_chunk_start)
  finally have "int (i * nat ?p) < int (length xs)" using pos by simp
  then have "i * nat ?p < length xs" by (simp only: of_nat_less_iff)
  with pos c chunk_nonempty_iff [OF w i, of xs] show False by simp
qed

text \<open>
  Claim C4, as the code has it.  On the parallel path (\<open>workers > 1\<close>) with a non-empty
  page range, the list of line 53 has exactly \<open>workers\<close> chunks, and chunk \<open>i\<close> is
  non-empty exactly when \<open>i * pages_per_worker < len(page_range)\<close>.  Every chunk is
  non-empty when \<open>(workers - 1)\<^sup>2 < len(page_range)\<close>; otherwise trailing chunks can
  be empty.
\<close>

theorem chunk_nonempty_characterisation:
  assumes "1 < workers" and "page_range \<noteq> []"
  shows "length (page_range_chunks page_range workers) = nat workers \<and>
         (\<forall>i. i < nat workers \<longrightarrow>
            (page_range_chunks page_range workers ! i \<noteq> [] \<longleftrightarrow>
             i * nat (pages_per_worker page_range workers) < length page_range)) \<and>
         ((workers - 1) * (workers - 1) < int (length page_range) \<longrightarrow>
            [] \<notin> set (page_range_chunks page_range workers))"
proof -
  have w: "0 < workers" using assms(1) by simp
  have pos: "0 < pages_per_worker page_range workers"
    using w assms(2) by (rule pages_per_worker_pos)
  have "length (page_range_chunks page_range workers) = nat workers"
    by (simp add: page_range_chunks_nat [OF w])
  moreover have "page_range_chunks page_range workers ! i \<noteq> [] \<longleftrightarrow>
      i * nat (pages_per_worker page_range workers) < length page_range"
    if "i < nat workers" for i
    using chunk_nonempty_iff [OF w that, of page_range] pos by simp
  moreover have "[] \<notin> set (page_range_chunks page_range workers)"
    if "(workers - 1) * (workers - 1) < int (length page_range)"
    using w that by (rule chunks_all_nonempty)
  ultimately show ?thesis by blast
qed

theorem chunk_nonempty_characterisation_witness:
  "(1::int) < 3 \<and> [0, 1, 2, 3, 4, 5, 6, 7, 8, 9 :: int] \<noteq> [] \<and>
   length (page_range_chunks [0, 1, 2, 3, 4, 5, 6, 7, 8, 9 :: int] 3) = 3 \<and>
   (2::nat) < nat 3 \<and>
   2 * nat (pages_per_worker [0, 1, 2, 3, 4, 5, 6, 7, 8, 9 :: int] 3) < 10 \<and>
   page_range_chunks [0, 1, 2, 3, 4, 5, 6, 7, 8, 9 :: int] 3 ! 2 \<noteq> [] \<and>
   ((3::int) - 1) * (3 - 1) < 10 \<and>
   [] \<notin> set (page_range_chunks [0, 1, 2, 3, 4, 5, 6, 7, 8, 9 :: int] 3)"
  using chunk_nonempty_characterisation [of 3 "[0, 1, 2, 3, 4, 5, 6, 7, 8, 9 :: int]"]
  by (simp add: pages_per_worker_def)

text \<open>
  Claim C4 as stated fails.  With a threshold of 3, sixteen pages and five requested
  workers the cap leaves five workers, the chunk size is \<open>ceil(16 / 5) = 4\<close>, and the
  fifth chunk is \<^verbatim>\<open>page_range[16:20]\<close>, which is empty.
\<close>

theorem empty_chunk_counterexample:
  "effective_workers 3 (py_range 16) (Some 5) = Inr (Some 5) \<and>
   py_range 16 \<noteq> [] \<and>
   page_range_chunks (py_range 16) 5 ! 4 = []"
  by (simp add: effective_workers_def page_range_chunks_def pages_per_worker_def py_range_def
      py_slice_def slice_index_def upt_rec)

section \<open>The worker-count cap\<close>

lemma capped_small:
  assumes "t \<noteq> 0" "int n < t * 2"
  shows "min w (int n div t) \<le> 1"
proof -
  have "0 < t" using assms by (cases "0 < t") auto
  have "t * (int n div t) + int n mod t = int n" by simp
  moreover have "0 \<le> int n mod t" using \<open>0 < t\<close> by simp
  ultimately have "t * (int n div t) < t * 2" using assms(2) by linarith
  then have "int n div t < 2" using \<open>0 < t\<close> by (simp only: mult_less_cancel_left_pos)
  then show ?thesis by simp
qed

text \<open>
  Claim C3.  When \<^verbatim>\<open>workers\<close> is \<^verbatim>\<open>None\<close>, or at most 1, or the page range has
  fewer than \<open>2 * WORKER_PAGE_THRESHOLD\<close> pages, \<^verbatim>\<open>_get_pages\<close> takes the sequential
  path: one call of \<^verbatim>\<open>get_pdfium_chars\<close> on the whole page range and one call of
  \<^verbatim>\<open>inference\<close>, both in the caller's process, and no worker.  The threshold is a
  non-zero configuration constant (line 43 divides by it whenever \<^verbatim>\<open>workers\<close> is
  given).
\<close>

theorem small_ranges_run_sequentially:
  assumes "\<forall>w. workers = Some w \<longrightarrow>
             WORKER_PAGE_THRESHOLD env \<noteq> 0 \<and>
             (w \<le> 1 \<or> int (length (default_page_range env pdf_doc page_range))
                        < WORKER_PAGE_THRESHOLD env * 2)"
  shows "get_pages env pdf_doc model page_range flatten_pdf workers =
           (Inr (inference env
                   (get_pdfium_chars env pdf_doc (default_page_range env pdf_doc page_range)
                      (Some flatten_pdf))
                   (fst (default_model env model))),
            snd (default_model env model) @
            [Get_pdfium_chars pdf_doc (default_page_range env pdf_doc page_range)
               (Some flatten_pdf), Inference])"
proof (cases workers)
  case None
  then show ?thesis
    by (simp add: get_pages_def effective_workers_def sequential_path_def Let_def
        split: prod.split)
next
  case (Some w)
  with assms have t: "WORKER_PAGE_THRESHOLD env \<noteq> 0"
    and c: "w \<le> 1 \<or> int (length (default_page_range env pdf_doc page_range))
                        < WORKER_PAGE_THRESHOLD env * 2" by simp_all
  have "min w (int (length (default_page_range env pdf_doc page_range))
                 div WORKER_PAGE_THRESHOLD env) \<le> 1"
  proof (cases "w \<le> 1")
    case True
    then show ?thesis by simp
  next
    case False
    with c show ?thesis by (intro capped_small [OF t]) simp
  qed
  then show ?thesis using Some t
    by (simp add: get_pages_def effective_workers_def sequential_path_def Let_def
        split: prod.split)
qed

theorem small_ranges_run_sequentially_witness:
  "WORKER_PAGE_THRESHOLD example_env \<noteq> 0 \<and>
   int (length (default_page_range example_env 10 (Some [0, 1, 2, 3, 4])))
     < WORKER_PAGE_THRESHOLD example_env * 2 \<and>
   get_pages example_env 10 None (Some [0, 1, 2, 3, 4]) False (Some 4) =
     (Inr [Ref 0, Ref 10, Ref 20, Ref 30, Ref 40],
      [Get_model, Get_pdfium_chars 10 [0, 1, 2, 3, 4] (Some False), Inference])"
  using small_ranges_run_sequentially
    [of "Some 4" example_env 10 "Some [0, 1, 2, 3, 4]" None False]
  by (simp add: example_env_def default_page_range_def default_model_def)

section \<open>Order of the pages\<close>

lemma parallel_pages:
  assumes pp: "\<forall>pages flatten.
                 inference env (get_pdfium_chars env pdf_doc pages flatten) m
                   = map (page_result flatten) pages"
    and w: "0 < w"
  shows "fst (parallel_path env pdf_doc m pr w) = map (page_result None) pr"
proof -
  have "fst (parallel_path env pdf_doc m pr w)
          = concat (map (map (page_result None)) (page_range_chunks pr w))"
    using pp by (simp add: parallel_path_def get_page_range_def Let_def comp_def)
  also have "\<dots> = map (page_result None) (concat (page_range_chunks pr w))"
    by (simp add: map_concat)
  finally show ?thesis by (simp add: concat_chunks [OF w])
qed

lemma get_pages_Some:
  assumes "WORKER_PAGE_THRESHOLD env \<noteq> 0"
    and "c = min k (int (length (default_page_range env pdf_doc page_range))
                      div WORKER_PAGE_THRESHOLD env)"
  shows "get_pages env pdf_doc model page_range flatten_pdf (Some k) =
           (Inr (fst (if c \<le> 1
                      then sequential_path env pdf_doc (fst (default_model env model))
                             (default_page_range env pdf_doc page_range) flatten_pdf
                      else parallel_path env pdf_doc (fst (default_model env model))
                             (default_page_range env pdf_doc page_range) c)),
            snd (default_model env model) @
            snd (if c \<le> 1
                 then sequential_path env pdf_doc (fst (default_model env model))
                        (default_page_range env pdf_doc page_range) flatten_pdf
                 else parallel_path env pdf_doc (fst (default_model env model))
                        (default_page_range env pdf_doc page_range) c))"
  using assms
  by (simp add: get_pages_def effective_workers_def Let_def case_prod_beta
      del: min_less_iff_conj)

text \<open>
  Claim C2.  Let the glyph extractor and the model together return one page per
  requested page index, in the order of the indices (\<open>page_result\<close> is that page; it
  may depend on the flatten argument, which only the sequential call passes).  Then
  \<^verbatim>\<open>_get_pages\<close> with \<open>workers = 1\<close> and with \<open>workers = n\<close> both return the pages
  of \<^verbatim>\<open>page_range\<close> in the order of \<^verbatim>\<open>page_range\<close>: the results of the chunks are
  concatenated in the order the chunks were submitted.
\<close>

theorem workers_preserve_page_order:
  assumes pp: "\<forall>pages flatten.
                 inference env (get_pdfium_chars env pdf_doc pages flatten)
                   (fst (default_model env model)) = map (page_result flatten) pages"
      and t: "WORKER_PAGE_THRESHOLD env \<noteq> 0"
  shows "fst (get_pages env pdf_doc model page_range flatten_pdf (Some 1)) =
           Inr (map (page_result (Some flatten_pdf))
                  (default_page_range env pdf_doc page_range)) \<and>
         fst (get_pages env pdf_doc model page_range flatten_pdf (Some n)) =
           Inr (map (page_result
                       (if 1 < min n (int (length (default_page_range env pdf_doc page_range))
                                        div WORKER_PAGE_THRESHOLD env)
                        then None else Some flatten_pdf))
                  (default_page_range env pdf_doc page_range))"
proof -
  let ?pr = "default_page_range env pdf_doc page_range"
  let ?m = "fst (default_model env model)"
  have seq: "fst (sequential_path env pdf_doc ?m ?pr flatten_pdf)
               = map (page_result (Some flatten_pdf)) ?pr"
    using pp by (simp add: sequential_path_def)
  have par: "fst (parallel_path env pdf_doc ?m ?pr w) = map (page_result None) ?pr"
    if "1 < w" for w
    using parallel_pages [OF pp, of w ?pr] that by simp
  have gen: "fst (get_pages env pdf_doc model page_range flatten_pdf (Some k)) =
           Inr (map (page_result (if 1 < c then None else Some flatten_pdf)) ?pr)"
    if c: "c = min k (int (length ?pr) div WORKER_PAGE_THRESHOLD env)" for k c
  proof (cases "c \<le> 1")
    case True
    then show ?thesis using seq by (simp add: get_pages_Some [OF t c])
  next
    case False
    then have "1 < c" by simp
    with False show ?thesis using par [of c] by (simp add: get_pages_Some [OF t c])
  qed
  have "\<not> 1 < min 1 (int (length ?pr) div WORKER_PAGE_THRESHOLD env)" by simp
  with gen [OF refl, of 1]
  have "fst (get_pages env pdf_doc model page_range flatten_pdf (Some 1)) =
           Inr (map (page_result (Some flatten_pdf)) ?pr)" by (simp only: if_False)
  with gen [OF refl, of n] show ?thesis by blast
qed

theorem workers_preserve_page_order_witness:
  "WORKER_PAGE_THRESHOLD example_env \<noteq> 0 \<and>
   fst (get_pages example_env 10 None None False (Some 1)) =
     Inr [Ref 0, Ref 10, Ref 20, Ref 30, Ref 40, Ref 50, Ref 60, Ref 70, Ref 80, Ref 90] \<and>
   fst (get_pages example_env 10 None None False (Some 4)) =
     Inr [Ref 0, Ref 10, Ref 20, Ref 30, Ref 40, Ref 50, Ref 60, Ref 70, Ref 80, Ref 90]"
  using workers_preserve_page_order
    [of example_env 10 None "\<lambda>flatten i. Ref (10 * nat i)" None False 4]
  by (simp add: example_env_def default_page_range_def default_model_def py_range_def upt_rec)

section \<open>Input validation\<close>

text \<open>
  Claim C7.  When the argument is neither a \<^verbatim>\<open>str\<close> nor a \<^verbatim>\<open>PdfDocument\<close>,
  both entry points raise \<^verbatim>\<open>TypeError\<close> with a message that names the two accepted
  types, before any call to the document, the glyph extractor or the model (the list
  of calls is empty and the store is untouched).  For a document handle the check
  returns the handle; for a string it returns whatever opening the document returns,
  so the check itself raises nothing.
\<close>

theorem invalid_input_type_error:
  "plain_text_output env OtherObject sort' model hyphens page_range flatten_pdf workers =
     (Inl (TypeError ''pdf must be a file path string or a PdfDocument object''), []) \<and>
   dictionary_output env2 OtherObject sort' model2 page_range flatten_pdf keep_chars workers h =
     (Inl (TypeError ''pdf must be a file path string or a PdfDocument object''), h, []) \<and>
   check_pdf env (PdfDocument d) = (Inr d, []) \<and>
   check_pdf env (PyStr path) = (open_document env path, [Open_document path])"
  by (simp add: plain_text_output_def dictionary_output_def process_pdf_def check_pdf_def)

section \<open>Flat text\<close>

lemma py_strip_ends:
  "py_strip s = [] \<or> (\<not> py_isspace (hd (py_strip s)) \<and> \<not> py_isspace (last (py_strip s)))"
proof (cases "py_strip s = []")
  case True
  then show ?thesis by simp
next
  case False
  let ?t = "dropWhile py_isspace s"
  let ?u = "dropWhile py_isspace (rev ?t)"
  from False have u: "?u \<noteq> []" by (simp add: py_strip_def)
  have t: "?t \<noteq> []"
  proof
    assume "?t = []"
    then have "?u = []" by (simp only: rev.simps dropWhile.simps)
    with u show False by simp
  qed
  have "\<not> py_isspace (hd ?u)" using u by (rule hd_dropWhile)
  then have l: "\<not> py_isspace (last (py_strip s))"
    using u by (simp add: py_strip_def last_rev)
  have "last ?u = last (rev ?t)"
    using u by (metis last_appendR takeWhile_dropWhile_id)
  then have "hd (py_strip s) = hd ?t"
    using t u by (simp add: py_strip_def hd_rev last_rev)
  moreover have "\<not> py_isspace (hd ?t)" using t by (rule hd_dropWhile)
  ultimately show ?thesis using l by simp
qed

text \<open>
  Claim C8.  When \<^verbatim>\<open>_process_pdf\<close> returns a document, \<^verbatim>\<open>plain_text_output\<close>
  returns the strings of \<^verbatim>\<open>paginated_plain_text_output\<close> on that document, joined
  with one newline between consecutive pages; and each of those strings is stripped:
  it is empty, or its first and its last character are not whitespace.
\<close>

theorem plain_text_joins_stripped_pages:
  assumes "process_pdf env pdf flatten_pdf = (Inr pdf_doc, evs)"
      and "paginated_plain_text_output env pdf_doc sort' model hyphens page_range
             flatten_pdf workers = (Inr text, evs')"
  shows "fst (plain_text_output env pdf sort' model hyphens page_range flatten_pdf workers)
           = Inr (py_join [10] text) \<and>
         (\<forall>s \<in> set text. s = [] \<or> (\<not> py_isspace (hd s) \<and> \<not> py_isspace (last s)))"
proof -
  have "fst (plain_text_output env pdf sort' model hyphens page_range flatten_pdf workers)
           = Inr (py_join [10] text)"
    using assms by (simp add: plain_text_output_def)
  moreover have "s = [] \<or> (\<not> py_isspace (hd s) \<and> \<not> py_isspace (last s))"
    if "s \<in> set text" for s
  proof -
    from assms(2) that obtain page where "s = py_strip (merge_text env page sort' hyphens)"
      by (auto simp add: paginated_plain_text_output_def split: prod.splits sum.splits)
    then show ?thesis using py_strip_ends by simp
  qed
  ultimately show ?thesis by blast
qed

theorem plain_text_joins_stripped_pages_witness:
  "process_pdf example_env (PyStr ''a.pdf'') False = (Inr 10, [Open_document ''a.pdf'']) \<and>
   paginated_plain_text_output example_env 10 False None False (Some [0, 1, 2]) False None =
     (Inr [[112, 48], [112, 49], [112, 50]],
      [Get_model, Get_pdfium_chars 10 [0, 1, 2] (Some False), Inference]) \<and>
   fst (plain_text_output example_env (PyStr ''a.pdf'') False None False (Some [0, 1, 2])
          False None) = Inr [112, 48, 10, 112, 49, 10, 112, 50] \<and>
   [112, 49] \<in> set [[112, 48], [112, 49], [112, 50 :: nat]] \<and>
   \<not> py_isspace (hd [112, 49]) \<and> \<not> py_isspace (last [112, 49])"
proof -
  have p: "process_pdf example_env (PyStr ''a.pdf'') False = (Inr 10, [Open_document ''a.pdf''])"
    by (simp add: process_pdf_def check_pdf_def example_env_def)
  have q: "paginated_plain_text_output example_env 10 False None False (Some [0, 1, 2]) False
             None =
           (Inr [[112, 48], [112, 49], [112, 50]],
            [Get_model, Get_pdfium_chars 10 [0, 1, 2] (Some False), Inference])"
    by (simp add: paginated_plain_text_output_def get_pages_def default_model_def
        default_page_range_def effective_workers_def sequential_path_def example_env_def
        py_strip_def py_isspace_def)
  from plain_text_joins_stripped_pages [OF p q] p q show ?thesis by simp
qed

section \<open>Flattening of forms\<close>

lemma get_pages_no_init_forms:
  "sum_list (map init_forms_calls
     (snd (get_pages env pdf_doc model page_range flatten_pdf workers))) = 0"
proof -
  have m: "sum_list (map init_forms_calls (snd (default_model env model))) = 0"
    by (simp add: default_model_def split: option.split)
  have s: "sum_list (map init_forms_calls
             (snd (sequential_path env pdf_doc mo pr flatten_pdf))) = 0" for mo pr
    by (simp add: sequential_path_def)
  have p: "sum_list (map init_forms_calls (snd (parallel_path env pdf_doc mo pr w))) = 0"
    for mo pr w
    by (simp add: parallel_path_def get_page_range_def Let_def comp_def)
  show ?thesis
    using m s p
    by (auto simp add: get_pages_def Let_def case_prod_beta split: sum.split option.split)
qed

lemma plain_text_events:
  "process_pdf env pdf flatten_pdf = (Inr pdf_doc, evs) \<Longrightarrow>
   snd (plain_text_output env pdf sort' model hyphens page_range flatten_pdf workers) =
     evs @ snd (get_pages env pdf_doc model page_range flatten_pdf workers)"
  by (simp add: plain_text_output_def paginated_plain_text_output_def
      split: prod.split sum.split)

lemma dictionary_events:
  "process_pdf env pdf flatten_pdf = (Inr pdf_doc, evs) \<Longrightarrow>
   snd (snd (dictionary_output env pdf sort' model page_range flatten_pdf keep_chars workers h))
     = evs @ snd (get_pages env pdf_doc model page_range flatten_pdf workers)"
  by (simp add: dictionary_output_def split: prod.split sum.split option.split)

text \<open>
  Claim C9.  With \<^verbatim>\<open>flatten_pdf\<close> set and an argument that passes the check of lines
  16-20, the calls made by \<^verbatim>\<open>plain_text_output\<close> and by \<^verbatim>\<open>dictionary_output\<close> are:
  the opening of the document if the argument was a path, then \<^verbatim>\<open>init_forms\<close> on the
  parent's handle, then the calls of \<^verbatim>\<open>_get_pages\<close> on the flattened handle.
  Neither the calls before nor the calls of \<^verbatim>\<open>_get_pages\<close>, at any depth and so
  inside any worker, contain another \<^verbatim>\<open>init_forms\<close>: it is called exactly once, before
  the page range is partitioned and before any worker is dispatched.
\<close>

theorem flatten_once_before_dispatch:
  assumes "check_pdf env pdf = (Inr d, pre)"
  shows "snd (plain_text_output env pdf sort' model hyphens page_range True workers) =
           pre @ Init_forms d #
             snd (get_pages env (init_forms env d) model page_range True workers) \<and>
         snd (snd (dictionary_output env pdf sort' model page_range True keep_chars workers h))
           = pre @ Init_forms d #
               snd (get_pages env (init_forms env d) model page_range True workers) \<and>
         sum_list (map init_forms_calls pre) = 0 \<and>
         sum_list (map init_forms_calls
                     (snd (get_pages env (init_forms env d) model page_range True workers))) = 0"
proof -
  have pp: "process_pdf env pdf True = (Inr (init_forms env d), pre @ [Init_forms d])"
    using assms by (simp add: process_pdf_def)
  have "sum_list (map init_forms_calls pre) = 0"
    using assms by (auto simp add: check_pdf_def split: pdf_arg.splits)
  then show ?thesis
    using plain_text_events [OF pp] dictionary_events [OF pp] get_pages_no_init_forms
    by simp
qed

theorem flatten_once_before_dispatch_witness:
  "check_pdf example_env (PyStr ''a.pdf'') = (Inr 10, [Open_document ''a.pdf'']) \<and>
   snd (plain_text_output example_env (PyStr ''a.pdf'') False None False None True (Some 4)) =
     [Open_document ''a.pdf'', Init_forms 10, Get_model,
      Worker [0, 1, 2, 3] [Get_pdfium_chars 10 [0, 1, 2, 3] None, Inference],
      Worker [4, 5, 6, 7] [Get_pdfium_chars 10 [4, 5, 6, 7] None, Inference],
      Worker [8, 9] [Get_pdfium_chars 10 [8, 9] None, Inference]]"
proof -
  have c: "check_pdf example_env (PyStr ''a.pdf'') = (Inr 10, [Open_document ''a.pdf''])"
    by (simp add: check_pdf_def example_env_def)
  have g: "snd (get_pages example_env 10 None None True (Some 4)) =
     [Get_model,
      Worker [0, 1, 2, 3] [Get_pdfium_chars 10 [0, 1, 2, 3] None, Inference],
      Worker [4, 5, 6, 7] [Get_pdfium_chars 10 [4, 5, 6, 7] None, Inference],
      Worker [8, 9] [Get_pdfium_chars 10 [8, 9] None, Inference]]"
    by (simp add: get_pages_def default_model_def default_page_range_def
        effective_workers_def parallel_path_def get_page_range_def page_range_chunks_def
        pages_per_worker_def py_range_def py_slice_def slice_index_def example_env_def
        upt_rec Let_def)
  have i: "init_forms example_env 10 = 10" by (simp add: example_env_def)
  from flatten_once_before_dispatch [OF c, of False None False None "Some 4"] c g i
  show ?thesis by simp
qed

end
